theory Spec2Isabelle
  imports Main "HOL-Library.Char_ord" "HOL-Library.List_Lexorder"
begin

section \<open>The collaborators of kv/db.go\<close>

text \<open>
  The file \<^verbatim>\<open>kv/db.go\<close> is the client side of the key value store: the \<^verbatim>\<open>DistDB\<close>
  struct, the resolver \<^verbatim>\<open>getNode\<close>, the generic dispatcher \<^verbatim>\<open>sendRPC\<close> and one entry
  point per operation. The packages it imports (\<^verbatim>\<open>storage\<close>, \<^verbatim>\<open>rpc\<close>, \<^verbatim>\<open>util\<close>,
  \<^verbatim>\<open>gossip\<close>) are not part of the file; what the file needs of them is modelled in this
  section.
\<close>

text \<open>\<^verbatim>\<open>storage.Key\<close> is a byte sequence; keys are ordered lexicographically.\<close>

type_synonym Key = string

text \<open>
  Go's \<^verbatim>\<open>error\<close> is an open interface. \<open>Errorf\<close> is \<^verbatim>\<open>util.Errorf\<close>, the only error
  the file builds itself. Modelled from the spec: the error kinds \<open>StaleRouteError\<close>,
  \<open>RemoteCallError\<close> and \<open>Unimplemented\<close>, which a remote call may hand back; the file
  never inspects an error, so it has no classification of its own.
\<close>

datatype error =
    Errorf string
  | StaleRouteError string
  | RemoteCallError string
  | Unimplemented string

text \<open>
  Modelled from the spec: the request and response structs of package \<^verbatim>\<open>storage\<close>,
  whose declarations are missing. Every response carries the field \<open>Error\<close>, which is
  the field \<^verbatim>\<open>sendRPC\<close> finds by name; a response is therefore an extension of
  \<open>ResponseHeader\<close>, and \<^verbatim>\<open>sendRPC\<close> is generic in the extension. Integers are
  unbounded here: the file does no arithmetic on them.
\<close>

record ResponseHeader =
  Error :: "error option"

record ContainsRequest =
  Key :: Key

record ContainsResponse = ResponseHeader +
  Exists :: bool

record GetRequest =
  Key :: Key

record GetResponse = ResponseHeader +
  Value :: string

record PutRequest =
  Key :: Key
  Value :: string

type_synonym PutResponse = ResponseHeader

record IncrementRequest =
  Key :: Key
  Amount :: int

record IncrementResponse = ResponseHeader +
  NewValue :: int

record DeleteRequest =
  Key :: Key

type_synonym DeleteResponse = ResponseHeader

record DeleteRangeRequest =
  StartKey :: Key
  EndKey :: Key

record DeleteRangeResponse = ResponseHeader +
  NumDeleted :: nat

record ScanRequest =
  StartKey :: Key
  EndKey :: Key
  MaxResults :: int

record ScanResponse = ResponseHeader +
  Rows :: "(Key \<times> string) list"

record EndTransactionRequest =
  Keys :: "Key list"

record EndTransactionResponse = ResponseHeader +
  Committed :: bool

record AccumulateTSRequest =
  Key :: Key
  Counts :: "int list"

type_synonym AccumulateTSResponse = ResponseHeader

record ReapQueueRequest =
  Inbox :: Key
  MaxResults :: int

record ReapQueueResponse = ResponseHeader +
  Messages :: "string list"

record EnqueueMessageRequest =
  Inbox :: Key
  Message :: string

type_synonym EnqueueMessageResponse = ResponseHeader

text \<open>
  A Go channel with a buffer: \<open>cap\<close> is its capacity and \<open>buf\<close> the values sent and
  not yet received, oldest first. \<open>Send\<close> on a full channel has to wait for a receiver;
  with none in sight the sender blocks, which is the result \<open>None\<close>.
\<close>

record 'v chan =
  cap :: nat
  buf :: "'v list"

definition MakeChan :: "nat \<Rightarrow> 'v chan" where
  "MakeChan n = \<lparr>cap = n, buf = []\<rparr>"

definition Send :: "'v chan \<Rightarrow> 'v \<Rightarrow> 'v chan option" where
  "Send ch v = (if length (buf ch) < cap ch then Some (ch\<lparr>buf := buf ch @ [v]\<rparr>) else None)"

text \<open>
  How a thread of control ends: it runs to its end with a result, it panics, or it
  blocks forever.
\<close>

datatype 'x outcome = Done 'x | Panic string | Blocked

text \<open>
  \<^verbatim>\<open>rpc.Client\<close>: a client is what its method \<^verbatim>\<open>Call(method, args, reply) error\<close> does.
  The call reads the request, may write the response it was handed, and acts on the
  remote node, whose state is the type \<open>'w\<close>; it returns the error, the response as it
  left it, and the new remote state.
\<close>

type_synonym ('a, 'r, 'w) Client = "string \<Rightarrow> 'a \<Rightarrow> 'r \<Rightarrow> 'w \<Rightarrow> error option \<times> 'r \<times> 'w"

text \<open>
  Modelled from the spec: the range descriptor and the range cache (\<^verbatim>\<open>util.LRUCache\<close>,
  whose declaration is missing), a cache from a range's start key to its descriptor,
  most recently used entry first.
\<close>

record RangeDescriptor =
  startKey :: Key
  endKey :: Key
  nodeAddr :: string

type_synonym LRUCache = "(Key \<times> RangeDescriptor) list"

section \<open>DistDB, the resolver and the dispatcher\<close>

text \<open>The struct \<^verbatim>\<open>DistDB\<close>; \<open>'g\<close> stands for \<^verbatim>\<open>*gossip.Gossip\<close>.\<close>

record 'g DistDB =
  gossip :: 'g
  rangeCache :: LRUCache

text \<open>\<^verbatim>\<open>NewDB\<close> sets the gossip instance; the range cache has Go's zero value.\<close>

definition NewDB :: "'g \<Rightarrow> 'g DistDB" where
  "NewDB g = \<lparr>gossip = g, rangeCache = []\<rparr>"

text \<open>
  \<^verbatim>\<open>getNode\<close> returns a client and an error, as the Go function does. Its body is the
  single statement \<^verbatim>\<open>return nil, util.Errorf("getNode unimplemented")\<close>.
\<close>

definition getNode :: "'g DistDB \<Rightarrow> Key \<Rightarrow> ('a, 'r, 'w) Client option \<times> error option" where
  "getNode db key = (None, Some (Errorf ''getNode unimplemented''))"

text \<open>
  What the background task of \<^verbatim>\<open>sendRPC\<close> does, step by step, is logged in a trace.
\<close>

datatype event = EvGetNode Key | EvCall string | EvSetError | EvSend

text \<open>
  The state of one background task: the variables its closure captures (\<^verbatim>\<open>db\<close>,
  \<^verbatim>\<open>key\<close>, \<^verbatim>\<open>method\<close>, \<^verbatim>\<open>args\<close>, \<^verbatim>\<open>reply\<close>, \<^verbatim>\<open>chanVal\<close>), the state of the
  remote side, and the trace. \<^verbatim>\<open>db\<close>, \<^verbatim>\<open>args\<close> and \<^verbatim>\<open>reply\<close> are pointers in Go;
  the fields hold the structs they point to, and the channel holds the responses sent.
  The range cache is a field of \<^verbatim>\<open>db\<close>: a step that evicted an entry would change
  \<open>taskDB\<close>.
\<close>

record ('g, 'a, 'm, 'w) task =
  taskDB :: "'g DistDB"
  taskKey :: Key
  taskMethod :: string
  taskArgs :: 'a
  taskReply :: "'m ResponseHeader_scheme"
  taskChan :: "'m ResponseHeader_scheme chan"
  taskWorld :: 'w
  taskTrace :: "event list"

text \<open>
  Lines 84 to 86: \<^verbatim>\<open>if err == nil { err = node.Call(method, args, reply) }\<close>. The result is
  the new value of \<^verbatim>\<open>err\<close> and the new state. A nil client with a nil error makes the
  method call dereference nil, which panics.
\<close>

definition callNode ::
  "('a, 'm ResponseHeader_scheme, 'w) Client option \<Rightarrow> error option \<Rightarrow> ('g, 'a, 'm, 'w) task
     \<Rightarrow> (error option \<times> ('g, 'a, 'm, 'w) task) outcome" where
  "callNode node err st =
     (if err = None then
        (case node of
           None \<Rightarrow> Panic ''invalid memory address or nil pointer dereference''
         | Some c \<Rightarrow>
             (case c (taskMethod st) (taskArgs st) (taskReply st) (taskWorld st) of
                (err', reply', w') \<Rightarrow>
                  Done (err', st\<lparr>taskReply := reply', taskWorld := w',
                                  taskTrace := taskTrace st @ [EvCall (taskMethod st)]\<rparr>)))
      else Done (err, st))"

text \<open>
  Lines 87 to 92: \<^verbatim>\<open>if err != nil { ... FieldByName("Error").Set(reflect.ValueOf(err)) }\<close>.
  Nothing is done when \<^verbatim>\<open>err\<close> is nil: the field keeps the value it has.
\<close>

definition setError :: "error option \<Rightarrow> ('g, 'a, 'm, 'w) task \<Rightarrow> ('g, 'a, 'm, 'w) task" where
  "setError err st =
     (case err of
        None \<Rightarrow> st
      | Some e \<Rightarrow> st\<lparr>taskReply := (taskReply st)\<lparr>Error := Some e\<rparr>,
                     taskTrace := taskTrace st @ [EvSetError]\<rparr>)"

text \<open>Line 93: \<^verbatim>\<open>chanVal.Send(replyVal)\<close>, after which the task is over.\<close>

definition sendReply :: "('g, 'a, 'm, 'w) task \<Rightarrow> ('g, 'a, 'm, 'w) task outcome" where
  "sendReply st =
     (case Send (taskChan st) (taskReply st) of
        None \<Rightarrow> Blocked
      | Some ch \<Rightarrow> Done (st\<lparr>taskChan := ch, taskTrace := taskTrace st @ [EvSend]\<rparr>))"

text \<open>
  The body of the task from line 84 on, for the pair \<^verbatim>\<open>node, err\<close> that the resolver
  returned on line 83.
\<close>

definition sendRPC_task ::
  "('a, 'm ResponseHeader_scheme, 'w) Client option \<times> error option \<Rightarrow> ('g, 'a, 'm, 'w) task
     \<Rightarrow> ('g, 'a, 'm, 'w) task outcome" where
  "sendRPC_task res st =
     (case res of (node, err) \<Rightarrow>
        (case callNode node err st of
           Panic m \<Rightarrow> Panic m
         | Blocked \<Rightarrow> Blocked
         | Done (err', st') \<Rightarrow> sendReply (setError err' st')))"

text \<open>
  The whole task, lines 81 to 94: resolve the key with \<^verbatim>\<open>db.getNode\<close>, then the rest.
  \<^verbatim>\<open>getNode\<close> writes nothing, so \<open>taskDB\<close> stays as it is.
\<close>

definition sendRPC_go :: "('g, 'a, 'm, 'w) task \<Rightarrow> ('g, 'a, 'm, 'w) task outcome" where
  "sendRPC_go st =
     sendRPC_task (getNode (taskDB st) (taskKey st))
       (st\<lparr>taskTrace := taskTrace st @ [EvGetNode (taskKey st)]\<rparr>)"

text \<open>
  The state in which the task starts: line 79 makes the channel, with capacity 1, and
  the closure captures the receiver and the parameters of \<^verbatim>\<open>sendRPC\<close>.
\<close>

definition newTask ::
  "'g DistDB \<Rightarrow> Key \<Rightarrow> string \<Rightarrow> 'a \<Rightarrow> 'm ResponseHeader_scheme \<Rightarrow> 'w
     \<Rightarrow> ('g, 'a, 'm, 'w) task" where
  "newTask db key method args reply w =
     \<lparr>taskDB = db, taskKey = key, taskMethod = method, taskArgs = args, taskReply = reply,
      taskChan = MakeChan 1, taskWorld = w, taskTrace = []\<rparr>"

text \<open>
  \<^verbatim>\<open>sendRPC\<close> starts the task and returns the channel at once. The model's result is
  the outcome of the task; the channel the caller holds is \<open>taskChan\<close> of its final
  state. Nobody but the task sends on the channel, and the caller keeps no other
  reference to the response, so running the task to its end before looking at the
  channel loses no behaviour of a caller that only receives.
\<close>

definition sendRPC ::
  "'g DistDB \<Rightarrow> Key \<Rightarrow> string \<Rightarrow> 'a \<Rightarrow> 'm ResponseHeader_scheme \<Rightarrow> 'w
     \<Rightarrow> ('g, 'a, 'm, 'w) task outcome" where
  "sendRPC db key method args reply w = sendRPC_go (newTask db key method args reply w)"

section \<open>The operations\<close>

text \<open>
  What an entry point hands back: Go's nil channel, or the channel of a dispatch,
  which stands here with the background task that feeds it.
\<close>

datatype ('g, 'a, 'm, 'w) future = NilChan | Future "('g, 'a, 'm, 'w) task outcome"

text \<open>
  Each entry point below passes a pointer to a fresh response, \<^verbatim>\<open>&storage.XResponse{}\<close>,
  all of whose fields have Go's zero value. In the type of a future, the third
  argument names the fields a response has besides \<open>Error\<close> (\<open>unit\<close> when it has none).
\<close>

definition Contains ::
  "'g DistDB \<Rightarrow> ContainsRequest \<Rightarrow> 'w \<Rightarrow> ('g, ContainsRequest, unit ContainsResponse_ext, 'w) future" where
  "Contains db args w =
     Future (sendRPC db (ContainsRequest.Key args) ''Node.Contains'' args
               \<lparr>Error = None, Exists = False\<rparr> w)"

definition Get ::
  "'g DistDB \<Rightarrow> GetRequest \<Rightarrow> 'w \<Rightarrow> ('g, GetRequest, unit GetResponse_ext, 'w) future" where
  "Get db args w =
     Future (sendRPC db (GetRequest.Key args) ''Node.Get'' args
               \<lparr>Error = None, GetResponse.Value = []\<rparr> w)"

definition Put :: "'g DistDB \<Rightarrow> PutRequest \<Rightarrow> 'w \<Rightarrow> ('g, PutRequest, unit, 'w) future" where
  "Put db args w =
     Future (sendRPC db (PutRequest.Key args) ''Node.Put'' args \<lparr>Error = None\<rparr> w)"

definition Increment ::
  "'g DistDB \<Rightarrow> IncrementRequest \<Rightarrow> 'w
     \<Rightarrow> ('g, IncrementRequest, unit IncrementResponse_ext, 'w) future" where
  "Increment db args w =
     Future (sendRPC db (IncrementRequest.Key args) ''Node.Increment'' args
               \<lparr>Error = None, NewValue = 0\<rparr> w)"

definition Delete :: "'g DistDB \<Rightarrow> DeleteRequest \<Rightarrow> 'w \<Rightarrow> ('g, DeleteRequest, unit, 'w) future" where
  "Delete db args w =
     Future (sendRPC db (DeleteRequest.Key args) ''Node.Delete'' args \<lparr>Error = None\<rparr> w)"

text \<open>\<^verbatim>\<open>DeleteRange\<close> dispatches on the start key (\<^verbatim>\<open>TODO(spencer): range of keys\<close>).\<close>

definition DeleteRange ::
  "'g DistDB \<Rightarrow> DeleteRangeRequest \<Rightarrow> 'w
     \<Rightarrow> ('g, DeleteRangeRequest, unit DeleteRangeResponse_ext, 'w) future" where
  "DeleteRange db args w =
     Future (sendRPC db (DeleteRangeRequest.StartKey args) ''Node.DeleteRange'' args
               \<lparr>Error = None, NumDeleted = 0\<rparr> w)"

text \<open>\<^verbatim>\<open>Scan\<close> is the single statement \<^verbatim>\<open>return nil\<close>.\<close>

definition Scan ::
  "'g DistDB \<Rightarrow> ScanRequest \<Rightarrow> 'w
     \<Rightarrow> ('g, ScanRequest, unit ScanResponse_ext, 'w) future" where
  "Scan db args w = NilChan"

text \<open>
  \<^verbatim>\<open>EndTransaction\<close> dispatches on \<^verbatim>\<open>args.Keys[0]\<close> (\<^verbatim>\<open>TODO(spencer): multiple keys
  here\<close>). The index expression is evaluated by the caller, before \<^verbatim>\<open>sendRPC\<close> is
  entered, and panics on an empty slice.
\<close>

definition EndTransaction ::
  "'g DistDB \<Rightarrow> EndTransactionRequest \<Rightarrow> 'w
     \<Rightarrow> ('g, EndTransactionRequest, unit EndTransactionResponse_ext, 'w) future outcome" where
  "EndTransaction db args w =
     (case Keys args of
        [] \<Rightarrow> Panic ''index out of range''
      | k # _ \<Rightarrow>
          Done (Future (sendRPC db k ''Node.EndTransaction'' args
                          \<lparr>Error = None, Committed = False\<rparr> w)))"

definition AccumulateTS ::
  "'g DistDB \<Rightarrow> AccumulateTSRequest \<Rightarrow> 'w \<Rightarrow> ('g, AccumulateTSRequest, unit, 'w) future" where
  "AccumulateTS db args w =
     Future (sendRPC db (AccumulateTSRequest.Key args) ''Node.AccumulateTS'' args
               \<lparr>Error = None\<rparr> w)"

definition ReapQueue ::
  "'g DistDB \<Rightarrow> ReapQueueRequest \<Rightarrow> 'w
     \<Rightarrow> ('g, ReapQueueRequest, unit ReapQueueResponse_ext, 'w) future" where
  "ReapQueue db args w =
     Future (sendRPC db (ReapQueueRequest.Inbox args) ''Node.ReapQueue'' args
               \<lparr>Error = None, Messages = []\<rparr> w)"

text \<open>
  \<^verbatim>\<open>EnqueueUpdate\<close> is the single statement \<^verbatim>\<open>return nil\<close>. The shapes of its request
  and response are not known; the function reads neither.
\<close>

definition EnqueueUpdate :: "'g DistDB \<Rightarrow> 'a \<Rightarrow> 'w \<Rightarrow> ('g, 'a, 'm, 'w) future" where
  "EnqueueUpdate db args w = NilChan"

definition EnqueueMessage ::
  "'g DistDB \<Rightarrow> EnqueueMessageRequest \<Rightarrow> 'w \<Rightarrow> ('g, EnqueueMessageRequest, unit, 'w) future" where
  "EnqueueMessage db args w =
     Future (sendRPC db (EnqueueMessageRequest.Inbox args) ''Node.EnqueueMessage'' args
               \<lparr>Error = None\<rparr> w)"

section \<open>Observing an operation\<close>

text \<open>
  What a caller gets who receives once from the channel it was handed. A receive from a
  nil channel blocks forever; so does a receive from a channel no one will send on. A
  panic of the background task ends the whole process, the receiver with it.
\<close>

fun recv :: "('g, 'a, 'm, 'w) future \<Rightarrow> 'm ResponseHeader_scheme outcome" where
  "recv NilChan = Blocked"
| "recv (Future (Done st)) = (case buf (taskChan st) of [] \<Rightarrow> Blocked | v # _ \<Rightarrow> Done v)"
| "recv (Future (Panic m)) = Panic m"
| "recv (Future Blocked) = Blocked"

text \<open>The number of background tasks an entry point has started.\<close>

fun dispatches :: "('g, 'a, 'm, 'w) future \<Rightarrow> nat" where
  "dispatches NilChan = 0"
| "dispatches (Future t) = 1"

text \<open>The number of times a task has sent on its channel, and has called a node.\<close>

definition sends :: "('g, 'a, 'm, 'w) task \<Rightarrow> nat" where
  "sends st = length (filter (\<lambda>e. e = EvSend) (taskTrace st))"

fun isCall :: "event \<Rightarrow> bool" where
  "isCall (EvCall m) = True"
| "isCall e = False"

definition calls :: "('g, 'a, 'm, 'w) task \<Rightarrow> nat" where
  "calls st = length (filter isCall (taskTrace st))"



text \<open>
  A dispatch has delivered exactly once when its task has run to its end, has sent
  once, as its last step, and the channel holds the one response, which is the response
  in its final state.
\<close>

fun deliveredOnce :: "('g, 'a, 'm, 'w) task outcome \<Rightarrow> bool" where
  "deliveredOnce (Done st) =
     (buf (taskChan st) = [taskReply st] \<and> sends st = 1 \<and> last (taskTrace st) = EvSend)"
| "deliveredOnce (Panic m) = False"
| "deliveredOnce Blocked = False"

fun futureDeliveredOnce :: "('g, 'a, 'm, 'w) future \<Rightarrow> bool" where
  "futureDeliveredOnce NilChan = False"
| "futureDeliveredOnce (Future t) = deliveredOnce t"

section \<open>What the specification says of ranges\<close>

text \<open>
  Modelled from the spec: the lookup of the range cache, "the entry whose [start,end)
  interval contains key".
\<close>

definition covers :: "RangeDescriptor \<Rightarrow> Key \<Rightarrow> bool" where
  "covers d k = (startKey d \<le> k \<and> k < endKey d)"

definition cacheLookup :: "LRUCache \<Rightarrow> Key \<Rightarrow> RangeDescriptor option" where
  "cacheLookup cache k = map_option snd (find (\<lambda>(s, d). covers d k) cache)"

text \<open>
  Modelled from the spec: the ranges that the interval from \<open>s\<close> to \<open>e\<close> (exclusive)
  spans, and the distinct ranges that a list of keys touches.
\<close>

definition spannedRanges :: "LRUCache \<Rightarrow> Key \<Rightarrow> Key \<Rightarrow> RangeDescriptor list" where
  "spannedRanges cache s e = filter (\<lambda>d. startKey d < e \<and> s < endKey d) (map snd cache)"

definition touchedRanges :: "LRUCache \<Rightarrow> Key list \<Rightarrow> RangeDescriptor list" where
  "touchedRanges cache ks = remdups (List.map_filter (cacheLookup cache) ks)"

section \<open>What the theorems observe\<close>

text \<open>The final state of a thread that ran to its end.\<close>

fun final :: "'x outcome \<Rightarrow> 'x option" where
  "final (Done x) = Some x"
| "final (Panic m) = None"
| "final Blocked = None"

text \<open>
  A dispatch has failed with the error \<open>e\<close> as data when its task has run to its end
  (it neither panicked nor blocked), the response carries \<open>e\<close> in its field \<open>Error\<close>,
  and a caller that receives from the channel gets that response.
\<close>

fun failedAsData :: "error \<Rightarrow> ('g, 'a, 'm, 'w) task outcome \<Rightarrow> bool" where
  "failedAsData e (Done st) =
     (Error (taskReply st) = Some e \<and> recv (Future (Done st)) = Done (taskReply st))"
| "failedAsData e (Panic m) = False"
| "failedAsData e Blocked = False"

text \<open>
  The frame of a failed dispatch: against the request \<open>a\<close> and the response \<open>r\<close>, the
  task has ended with the request as it was and with a response that differs from \<open>r\<close>
  in the field \<open>Error\<close> at most, which holds \<open>e\<close>.
\<close>

fun onlyErrorSet ::
  "error \<Rightarrow> 'a \<Rightarrow> 'm ResponseHeader_scheme \<Rightarrow> ('g, 'a, 'm, 'w) task outcome \<Rightarrow> bool" where
  "onlyErrorSet e a r (Done st) =
     (taskArgs st = a \<and> Error (taskReply st) = Some e \<and>
      ResponseHeader.more (taskReply st) = ResponseHeader.more r)"
| "onlyErrorSet e a r (Panic m) = False"
| "onlyErrorSet e a r Blocked = False"

text \<open>Whether a caller that receives gets a response whose error satisfies \<open>P\<close>.\<close>

fun deliversError :: "(error \<Rightarrow> bool) \<Rightarrow> ('g, 'a, 'm, 'w) future \<Rightarrow> bool" where
  "deliversError P f =
     (case recv f of
        Done r \<Rightarrow> (case Error r of None \<Rightarrow> False | Some e \<Rightarrow> P e)
      | Panic m \<Rightarrow> False
      | Blocked \<Rightarrow> False)"

fun isUnimplemented :: "error \<Rightarrow> bool" where
  "isUnimplemented (Unimplemented m) = True"
| "isUnimplemented e = False"

text \<open>The dispatches of an entry point that may panic before it returns.\<close>

fun callerDispatches :: "('g, 'a, 'm, 'w) future outcome \<Rightarrow> nat" where
  "callerDispatches (Done f) = dispatches f"
| "callerDispatches (Panic m) = 0"
| "callerDispatches Blocked = 0"

section \<open>Test data\<close>

text \<open>
  A node that answers from a script: the remote state is the list of the errors its
  next calls return (\<open>None\<close> for success), and a call takes the first. It leaves the
  response as it is.
\<close>

definition scriptedNode :: "('a, 'r, error option list) Client" where
  "scriptedNode method args reply w =
     (case w of [] \<Rightarrow> (None, reply, []) | x # xs \<Rightarrow> (x, reply, xs))"

text \<open>A client with a range cache of two ranges, from a to m on n1 and from m to z on n2.\<close>

definition twoRanges :: LRUCache where
  "twoRanges =
     [(''a'', \<lparr>startKey = ''a'', endKey = ''m'', nodeAddr = ''n1''\<rparr>),
      (''m'', \<lparr>startKey = ''m'', endKey = ''z'', nodeAddr = ''n2''\<rparr>)]"

definition db2 :: "unit DistDB" where
  "db2 = \<lparr>gossip = (), rangeCache = twoRanges\<rparr>"

definition getK :: GetRequest where
  "getK = \<lparr>GetRequest.Key = ''k''\<rparr>"

definition emptyGet :: GetResponse where
  "emptyGet = \<lparr>Error = None, GetResponse.Value = []\<rparr>"

definition deleteAZ :: DeleteRangeRequest where
  "deleteAZ = \<lparr>DeleteRangeRequest.StartKey = ''a'', DeleteRangeRequest.EndKey = ''z''\<rparr>"

definition scanAZ :: ScanRequest where
  "scanAZ = \<lparr>ScanRequest.StartKey = ''a'', ScanRequest.EndKey = ''z'',
             ScanRequest.MaxResults = 5\<rparr>"

text \<open>The script of a node that reports a stale route once and would then succeed.\<close>

definition staleThenOk :: "error option list" where
  "staleThenOk = [Some (StaleRouteError ''moved''), None]"

definition commitBN :: EndTransactionRequest where
  "commitBN = \<lparr>Keys = [''b'', ''n'']\<rparr>"

section \<open>The dispatcher, computed\<close>

text \<open>
  The three ways through the task, each from the state in which \<^verbatim>\<open>sendRPC\<close> starts
  it: the resolver has failed; the resolver has returned a node, which is called; and
  the resolver of the file, which fails on every key.
\<close>

lemma sendRPC_task_resolution_failure:
  "sendRPC_task (node, Some e) (newTask db key method args reply w) =
     Done \<lparr>taskDB = db, taskKey = key, taskMethod = method, taskArgs = args,
           taskReply = reply\<lparr>Error := Some e\<rparr>,
           taskChan = \<lparr>cap = 1, buf = [reply\<lparr>Error := Some e\<rparr>]\<rparr>,
           taskWorld = w, taskTrace = [EvSetError, EvSend]\<rparr>"
  by (simp add: sendRPC_task_def callNode_def setError_def sendReply_def Send_def newTask_def
      MakeChan_def)

lemma sendRPC_task_call:
  "sendRPC_task (Some c, None) (newTask db key method args reply w) =
     (case c method args reply w of
        (None, r1, w1) \<Rightarrow>
          Done \<lparr>taskDB = db, taskKey = key, taskMethod = method, taskArgs = args, taskReply = r1,
                taskChan = \<lparr>cap = 1, buf = [r1]\<rparr>, taskWorld = w1,
                taskTrace = [EvCall method, EvSend]\<rparr>
      | (Some e, r1, w1) \<Rightarrow>
          Done \<lparr>taskDB = db, taskKey = key, taskMethod = method, taskArgs = args,
                taskReply = r1\<lparr>Error := Some e\<rparr>,
                taskChan = \<lparr>cap = 1, buf = [r1\<lparr>Error := Some e\<rparr>]\<rparr>, taskWorld = w1,
                taskTrace = [EvCall method, EvSetError, EvSend]\<rparr>)"
  by (simp add: sendRPC_task_def callNode_def setError_def sendReply_def Send_def newTask_def
      MakeChan_def split: prod.splits option.splits)

lemma sendRPC_task_nil_node:
  "sendRPC_task (None, None) st = Panic ''invalid memory address or nil pointer dereference''"
  by (simp add: sendRPC_task_def callNode_def)

lemma sendRPC_eq:
  "sendRPC db key method args reply w =
     Done \<lparr>taskDB = db, taskKey = key, taskMethod = method, taskArgs = args,
           taskReply = reply\<lparr>Error := Some (Errorf ''getNode unimplemented'')\<rparr>,
           taskChan = \<lparr>cap = 1, buf = [reply\<lparr>Error := Some (Errorf ''getNode unimplemented'')\<rparr>]\<rparr>,
           taskWorld = w, taskTrace = [EvGetNode key, EvSetError, EvSend]\<rparr>"
  by (simp add: sendRPC_def sendRPC_go_def getNode_def sendRPC_task_def callNode_def
      setError_def sendReply_def Send_def newTask_def MakeChan_def)

lemma deliveredOnce_task:
  assumes "node \<noteq> None \<or> err \<noteq> None"
  shows "deliveredOnce (sendRPC_task (node, err) (newTask db key method args reply w))"
proof (cases err)
  case (Some e)
  then show ?thesis
    by (simp add: sendRPC_task_resolution_failure sends_def)
next
  case None
  with assms obtain c where c: "node = Some c" by auto
  show ?thesis
    unfolding None c sendRPC_task_call
    by (simp add: sends_def split: prod.splits option.splits)
qed

lemma deliveredOnce_sendRPC: "deliveredOnce (sendRPC db key method args reply w)"
  by (simp add: sendRPC_eq sends_def)

section \<open>Exactly one response\<close>

text \<open>
  C1. Every dispatch through \<^verbatim>\<open>sendRPC\<close> puts exactly one response on the channel the
  caller holds, and the background task then ends. This holds of the task for whatever
  the resolver returned, a node (which is then called, and succeeds or fails) or an
  error; the one pair a resolver must not return is no node with no error, on which the
  task would panic. It holds of \<^verbatim>\<open>sendRPC\<close> as the file has it, and so of each of the
  ten operations that dispatch through it. \<^verbatim>\<open>EndTransaction\<close> reaches \<^verbatim>\<open>sendRPC\<close> when
  its key list is not empty.
\<close>

theorem sendRPC_delivers_exactly_once:
  "(node \<noteq> None \<or> err \<noteq> None \<longrightarrow>
      deliveredOnce (sendRPC_task (node, err) (newTask db key method args reply w)))
   \<and> deliveredOnce (sendRPC db key method args reply w)
   \<and> futureDeliveredOnce (Contains db a1 w)
   \<and> futureDeliveredOnce (Get db a2 w)
   \<and> futureDeliveredOnce (Put db a3 w)
   \<and> futureDeliveredOnce (Increment db a4 w)
   \<and> futureDeliveredOnce (Delete db a5 w)
   \<and> futureDeliveredOnce (DeleteRange db a6 w)
   \<and> (Keys a7 \<noteq> [] \<longrightarrow>
        (case EndTransaction db a7 w of
           Done f \<Rightarrow> futureDeliveredOnce f | Panic m \<Rightarrow> False | Blocked \<Rightarrow> False))
   \<and> futureDeliveredOnce (AccumulateTS db a8 w)
   \<and> futureDeliveredOnce (ReapQueue db a9 w)
   \<and> futureDeliveredOnce (EnqueueMessage db a10 w)"
proof -
  have et: "Keys a7 \<noteq> [] \<longrightarrow>
        (case EndTransaction db a7 w of
           Done f \<Rightarrow> futureDeliveredOnce f | Panic m \<Rightarrow> False | Blocked \<Rightarrow> False)"
    by (cases "Keys a7") (simp_all add: EndTransaction_def deliveredOnce_sendRPC)
  show ?thesis
    using et deliveredOnce_task[of node err db key "method" args reply w]
    by (simp add: deliveredOnce_sendRPC Contains_def Get_def Put_def Increment_def Delete_def
        DeleteRange_def AccumulateTS_def ReapQueue_def EnqueueMessage_def)
qed

text \<open>
  The theorem at a node that succeeds (the script \<open>[None]\<close>), with the channel read
  out, and at a transaction of two keys.
\<close>

theorem sendRPC_delivers_exactly_once_witness:
  "Some (scriptedNode :: (GetRequest, GetResponse, error option list) Client) \<noteq> None
   \<and> deliveredOnce (sendRPC_task (Some scriptedNode, None)
         (newTask db2 ''k'' ''Node.Get'' getK emptyGet [None]))
   \<and> recv (Future (sendRPC_task (Some scriptedNode, None)
         (newTask db2 ''k'' ''Node.Get'' getK emptyGet [None]))) = Done emptyGet
   \<and> Keys commitBN \<noteq> []
   \<and> (case EndTransaction db2 commitBN ([None] :: error option list) of
         Done f \<Rightarrow> futureDeliveredOnce f | Panic m \<Rightarrow> False | Blocked \<Rightarrow> False)"
  using sendRPC_delivers_exactly_once[of "Some scriptedNode" None db2 "''k''" "''Node.Get''"
      getK emptyGet "[None]" "\<lparr>ContainsRequest.Key = ''k''\<rparr>" getK
      "\<lparr>PutRequest.Key = ''k'', PutRequest.Value = ''v''\<rparr>"
      "\<lparr>IncrementRequest.Key = ''k'', Amount = 1\<rparr>"
      "\<lparr>DeleteRequest.Key = ''k''\<rparr>" deleteAZ commitBN
      "\<lparr>AccumulateTSRequest.Key = ''k'', Counts = [1, 2]\<rparr>"
      "\<lparr>ReapQueueRequest.Inbox = ''in'', ReapQueueRequest.MaxResults = 3\<rparr>"
      "\<lparr>EnqueueMessageRequest.Inbox = ''in'', Message = ''hello''\<rparr>"]
  by (simp add: commitBN_def sendRPC_task_call scriptedNode_def)

section \<open>Failures are data\<close>

text \<open>
  C2. A failure of a dispatch is written into the field \<open>Error\<close> of the response the
  caller allocated and reaches the caller through the channel, as data: the task runs
  to its end, it does not panic. This holds when the resolver fails with an error \<open>e\<close>,
  whatever node it returns beside it; when the node it returned fails the call with
  \<open>e\<close>; and for \<^verbatim>\<open>sendRPC\<close> as the file has it, whose resolver fails on every key.
\<close>

theorem sendRPC_failure_is_data:
  "failedAsData e (sendRPC_task (node, Some e) (newTask db key method args reply w))
   \<and> (fst (c method args reply w) = Some e \<longrightarrow>
        failedAsData e (sendRPC_task (Some c, None) (newTask db key method args reply w)))
   \<and> failedAsData (Errorf ''getNode unimplemented'') (sendRPC db key method args reply w)"
proof (intro conjI impI)
  show "failedAsData e (sendRPC_task (node, Some e) (newTask db key method args reply w))"
    by (simp add: sendRPC_task_resolution_failure)
next
  assume "fst (c method args reply w) = Some e"
  then obtain r1 w1 where "c method args reply w = (Some e, r1, w1)"
    by (cases "c method args reply w") auto
  then show "failedAsData e (sendRPC_task (Some c, None) (newTask db key method args reply w))"
    by (simp add: sendRPC_task_call)
next
  show "failedAsData (Errorf ''getNode unimplemented'') (sendRPC db key method args reply w)"
    by (simp add: sendRPC_eq)
qed

text \<open>
  The theorem at a node that refuses the call: the caller receives the response with
  the node's error in it.
\<close>

theorem sendRPC_failure_is_data_witness:
  "fst (scriptedNode ''Node.Get'' getK emptyGet [Some (RemoteCallError ''refused'')])
     = Some (RemoteCallError ''refused'')
   \<and> failedAsData (RemoteCallError ''refused'')
        (sendRPC_task (Some scriptedNode, None)
           (newTask db2 ''k'' ''Node.Get'' getK emptyGet [Some (RemoteCallError ''refused'')]))
   \<and> recv (Get db2 getK [Some (RemoteCallError ''refused'')])
       = Done (emptyGet\<lparr>Error := Some (Errorf ''getNode unimplemented'')\<rparr>)"
proof -
  have call: "fst (scriptedNode ''Node.Get'' getK emptyGet [Some (RemoteCallError ''refused'')])
      = Some (RemoteCallError ''refused'')"
    by (simp add: scriptedNode_def)
  have "failedAsData (Errorf ''getNode unimplemented'')
      (sendRPC db2 ''k'' ''Node.Get'' getK emptyGet [Some (RemoteCallError ''refused'')])"
    using sendRPC_failure_is_data[of "RemoteCallError ''refused''" None db2 "''k''"
        "''Node.Get''" getK emptyGet "[Some (RemoteCallError ''refused'')]" scriptedNode]
    by simp
  then have "recv (Get db2 getK [Some (RemoteCallError ''refused'')])
      = Done (emptyGet\<lparr>Error := Some (Errorf ''getNode unimplemented'')\<rparr>)"
    by (simp add: Get_def getK_def emptyGet_def sendRPC_eq)
  with call show ?thesis
    using sendRPC_failure_is_data[of "RemoteCallError ''refused''" None db2 "''k''"
        "''Node.Get''" getK emptyGet "[Some (RemoteCallError ''refused'')]" scriptedNode]
    by simp
qed

section \<open>The frame of a failed dispatch\<close>

text \<open>
  C10. A dispatch that fails changes the field \<open>Error\<close> of the response and nothing
  else: the request and every other field of the response are those the caller
  supplied. With the resolver of the file every dispatch fails, in the resolver, before
  any call: no node is called and the remote state is as it was, so no dispatch fails
  during a call. The same frame holds of the task for any error a resolver returns,
  whatever node it returns beside it.
\<close>

theorem sendRPC_failure_frame:
  "onlyErrorSet (Errorf ''getNode unimplemented'') args reply
     (sendRPC db key method args reply w)
   \<and> map_option taskArgs (final (sendRPC db key method args reply w)) = Some args
   \<and> map_option taskReply (final (sendRPC db key method args reply w))
       = Some (reply\<lparr>Error := Some (Errorf ''getNode unimplemented'')\<rparr>)
   \<and> map_option calls (final (sendRPC db key method args reply w)) = Some 0
   \<and> map_option taskWorld (final (sendRPC db key method args reply w)) = Some w
   \<and> onlyErrorSet e args reply
        (sendRPC_task (node, Some e) (newTask db key method args reply w))
   \<and> map_option taskWorld
        (final (sendRPC_task (node, Some e) (newTask db key method args reply w))) = Some w"
proof -
  have run: "final (sendRPC db key method args reply w) =
      Some \<lparr>taskDB = db, taskKey = key, taskMethod = method, taskArgs = args,
            taskReply = reply\<lparr>Error := Some (Errorf ''getNode unimplemented'')\<rparr>,
            taskChan = \<lparr>cap = 1,
                        buf = [reply\<lparr>Error := Some (Errorf ''getNode unimplemented'')\<rparr>]\<rparr>,
            taskWorld = w, taskTrace = [EvGetNode key, EvSetError, EvSend]\<rparr>"
    by (simp add: sendRPC_eq)
  have frame: "onlyErrorSet (Errorf ''getNode unimplemented'') args reply
      (sendRPC db key method args reply w)"
    by (simp add: sendRPC_eq)
  have any: "onlyErrorSet e args reply
      (sendRPC_task (node, Some e) (newTask db key method args reply w))"
    by (simp add: sendRPC_task_resolution_failure)
  have world: "map_option taskWorld
      (final (sendRPC_task (node, Some e) (newTask db key method args reply w))) = Some w"
    by (simp add: sendRPC_task_resolution_failure)
  from run frame any world show ?thesis
    by (simp add: calls_def)
qed

text \<open>
  The theorem at a \<^verbatim>\<open>Get\<close> whose response already holds a value, against a node that
  would report a stale route: the value is still there, the request is the same, the
  node has not been called.
\<close>

theorem sendRPC_failure_frame_witness:
  "final (sendRPC db2 ''k'' ''Node.Get'' getK (emptyGet\<lparr>GetResponse.Value := ''old''\<rparr>)
      staleThenOk)
     = Some \<lparr>taskDB = db2, taskKey = ''k'', taskMethod = ''Node.Get'', taskArgs = getK,
             taskReply = \<lparr>Error = Some (Errorf ''getNode unimplemented''),
                           GetResponse.Value = ''old''\<rparr>,
             taskChan = \<lparr>cap = 1, buf = [\<lparr>Error = Some (Errorf ''getNode unimplemented''),
                                            GetResponse.Value = ''old''\<rparr>]\<rparr>,
             taskWorld = staleThenOk,
             taskTrace = [EvGetNode ''k'', EvSetError, EvSend]\<rparr>
   \<and> onlyErrorSet (Errorf ''getNode unimplemented'') getK
        (emptyGet\<lparr>GetResponse.Value := ''old''\<rparr>)
        (sendRPC db2 ''k'' ''Node.Get'' getK (emptyGet\<lparr>GetResponse.Value := ''old''\<rparr>)
           staleThenOk)"
  using sendRPC_failure_frame[of getK "emptyGet\<lparr>GetResponse.Value := ''old''\<rparr>" db2 "''k''"
      "''Node.Get''" staleThenOk "StaleRouteError ''moved''" None]
  by (simp add: sendRPC_eq emptyGet_def)

section \<open>The entry points that return nil\<close>

text \<open>
  C9. \<^verbatim>\<open>Scan\<close> and \<^verbatim>\<open>EnqueueUpdate\<close> return the nil channel on every input. Nothing is
  ever sent on it, and a caller that receives from it blocks forever: it gets neither
  a response nor an error.
\<close>

theorem Scan_EnqueueUpdate_return_nil:
  "Scan db sargs w = NilChan
   \<and> EnqueueUpdate db uargs w = NilChan
   \<and> recv (Scan db sargs w) = Blocked
   \<and> recv (EnqueueUpdate db uargs w) = Blocked"
  by (simp add: Scan_def EnqueueUpdate_def)

section \<open>No retry\<close>



section \<open>The resolver\<close>

text \<open>
  C4, as the specification has it: a key that the range cache covers resolves to the
  node of the covering entry. Here the cache holds the range from a to m on n1, which
  covers the key b, and \<^verbatim>\<open>getNode\<close> returns no client and an error.
\<close>

theorem getNode_cache_hit_counterexample:
  "cacheLookup (rangeCache db2) ''b''
     = Some \<lparr>startKey = ''a'', endKey = ''m'', nodeAddr = ''n1''\<rparr>
   \<and> (getNode db2 ''b'' :: (unit, unit, unit) Client option \<times> error option)
     = (None, Some (Errorf ''getNode unimplemented''))"
  by (simp add: cacheLookup_def covers_def db2_def twoRanges_def getNode_def)

text \<open>
  C4, amended. For every key and every range cache, \<^verbatim>\<open>getNode\<close> returns no client
  and the error "getNode unimplemented": the result does not depend on the cache, and
  a dispatch through \<^verbatim>\<open>sendRPC\<close> resolves once and contacts no node.
\<close>

theorem getNode_unimplemented:
  "getNode db key = (None, Some (Errorf ''getNode unimplemented''))
   \<and> getNode (db\<lparr>rangeCache := cache\<rparr>) key = getNode db key
   \<and> map_option calls (final (sendRPC db key method args reply w)) = Some 0"
  by (simp add: getNode_def sendRPC_eq calls_def)

section \<open>Operations on more than one key\<close>

text \<open>
  C5, as the specification has it: a \<^verbatim>\<open>DeleteRange\<close> whose interval spans N ranges
  issues N dispatches. Here the interval from a to z spans the two ranges of the cache,
  and \<^verbatim>\<open>DeleteRange\<close> issues one dispatch, whose response carries the resolver's error
  and the count 0.
\<close>

theorem DeleteRange_two_ranges_counterexample:
  "length (spannedRanges (rangeCache db2) (DeleteRangeRequest.StartKey deleteAZ)
      (DeleteRangeRequest.EndKey deleteAZ)) = 2
   \<and> dispatches (DeleteRange db2 deleteAZ ()) = 1
   \<and> recv (DeleteRange db2 deleteAZ ())
     = Done \<lparr>Error = Some (Errorf ''getNode unimplemented''), NumDeleted = 0\<rparr>"
  by (simp add: spannedRanges_def db2_def twoRanges_def deleteAZ_def DeleteRange_def sendRPC_eq)

text \<open>
  C5, amended. For every \<^verbatim>\<open>DeleteRange\<close>, whatever ranges its interval spans, the
  operation issues exactly one dispatch, for the whole request, on the start key and
  with the method Node.DeleteRange; the response is the response of that one dispatch.
  The interval is not partitioned and no counts are added up.
\<close>

theorem DeleteRange_single_dispatch:
  "DeleteRange db args w
     = Future (sendRPC db (DeleteRangeRequest.StartKey args) ''Node.DeleteRange'' args
                 \<lparr>Error = None, NumDeleted = 0\<rparr> w)
   \<and> dispatches (DeleteRange db args w) = 1
   \<and> recv (DeleteRange db args w)
     = Done \<lparr>Error = Some (Errorf ''getNode unimplemented''), NumDeleted = 0\<rparr>"
  by (simp add: DeleteRange_def sendRPC_eq)

text \<open>
  C6, as the specification has it: a \<^verbatim>\<open>Scan\<close> over several ranges returns the rows of
  its sub-ranges, up to the quota. Here the interval from a to z spans the two ranges
  of the cache and the quota is 5; \<^verbatim>\<open>Scan\<close> issues no dispatch, for the first range or
  any other, and the caller receives nothing.
\<close>

theorem Scan_two_ranges_counterexample:
  "length (spannedRanges (rangeCache db2) (ScanRequest.StartKey scanAZ)
      (ScanRequest.EndKey scanAZ)) = 2
   \<and> ScanRequest.MaxResults scanAZ = 5
   \<and> dispatches (Scan db2 scanAZ ()) = 0
   \<and> recv (Scan db2 scanAZ ()) = Blocked"
  by (simp add: spannedRanges_def db2_def twoRanges_def scanAZ_def Scan_def)

text \<open>
  C6, amended. For every \<^verbatim>\<open>Scan\<close>, whatever ranges its interval spans and whatever
  its quota, the operation issues no dispatch and returns no rows: no response ever
  reaches the caller.
\<close>

theorem Scan_no_dispatch_no_rows:
  "dispatches (Scan db args w) = 0 \<and> recv (Scan db args w) \<noteq> Done resp"
  by (simp add: Scan_def)

text \<open>
  C7, as the specification has it: an \<^verbatim>\<open>EndTransaction\<close> whose keys lie in D distinct
  ranges issues D dispatches. Here the keys b and n lie in the two ranges of the cache,
  and \<^verbatim>\<open>EndTransaction\<close> issues one dispatch, on b.
\<close>

theorem EndTransaction_two_ranges_counterexample:
  "length (touchedRanges (rangeCache db2) (Keys commitBN)) = 2
   \<and> callerDispatches (EndTransaction db2 commitBN ()) = 1
   \<and> EndTransaction db2 commitBN ()
     = Done (Future (sendRPC db2 ''b'' ''Node.EndTransaction'' commitBN
                       \<lparr>Error = None, Committed = False\<rparr> ()))"
  by (simp add: touchedRanges_def List.map_filter_def cacheLookup_def covers_def db2_def
      twoRanges_def commitBN_def EndTransaction_def)

text \<open>An empty key list makes \<^verbatim>\<open>args.Keys[0]\<close> panic, in the caller, before any dispatch.\<close>

lemma EndTransaction_no_keys_panics:
  "Keys args = [] \<Longrightarrow> EndTransaction db args w = Panic ''index out of range''"
  by (simp add: EndTransaction_def)

text \<open>
  C7, amended. For every \<^verbatim>\<open>EndTransaction\<close> with at least one key, whatever ranges
  the keys lie in, the operation issues exactly one dispatch, for the whole request, on
  the first key and with the method Node.EndTransaction; the response is the response
  of that one dispatch. No range is resolved per key and nothing is deduplicated.
\<close>

theorem EndTransaction_single_dispatch:
  "Keys args = k # ks \<longrightarrow>
     EndTransaction db args w
       = Done (Future (sendRPC db k ''Node.EndTransaction'' args
                         \<lparr>Error = None, Committed = False\<rparr> w))
     \<and> callerDispatches (EndTransaction db args w) = 1
     \<and> map_option recv (final (EndTransaction db args w))
       = Some (Done \<lparr>Error = Some (Errorf ''getNode unimplemented''), Committed = False\<rparr>)"
  by (simp add: EndTransaction_def sendRPC_eq)

text \<open>The theorem at the transaction on the keys b and n.\<close>

theorem EndTransaction_single_dispatch_witness:
  "Keys commitBN = ''b'' # [''n'']
   \<and> callerDispatches (EndTransaction db2 commitBN ()) = 1
   \<and> map_option recv (final (EndTransaction db2 commitBN ()))
     = Some (Done \<lparr>Error = Some (Errorf ''getNode unimplemented''), Committed = False\<rparr>)"
  using EndTransaction_single_dispatch[of commitBN "''b''" "[''n'']" db2 "()"]
  by (auto simp add: commitBN_def)

section \<open>Operations that are not implemented\<close>

text \<open>
  C8, as the specification has it: \<^verbatim>\<open>EnqueueUpdate\<close> delivers an error of the kind
  Unimplemented to the caller. It delivers nothing.
\<close>

theorem EnqueueUpdate_Unimplemented_counterexample:
  "\<not> deliversError isUnimplemented (EnqueueUpdate db2 () () :: (unit, unit, unit, unit) future)"
  by (simp add: EnqueueUpdate_def)

text \<open>
  C8, amended. The operations that are not implemented, \<^verbatim>\<open>EnqueueUpdate\<close> and
  \<^verbatim>\<open>Scan\<close>, return at once with no dispatch attempted, and no error, of the kind
  Unimplemented or of any other, is delivered to the caller.
\<close>

theorem EnqueueUpdate_no_dispatch_no_error:
  "dispatches (EnqueueUpdate db args w) = 0
   \<and> \<not> deliversError P (EnqueueUpdate db args w)
   \<and> dispatches (Scan db sargs w) = 0
   \<and> \<not> deliversError Q (Scan db sargs w)"
  by (simp add: EnqueueUpdate_def Scan_def)

end
